theory Spec2Isabelle
  imports Complex_Main "HOL-Library.Sublist"
begin

section \<open>The command execution service (api/app/services/cli_executor.py)\<close>

text \<open>
  Python strings are modelled as \<^typ>\<open>string\<close>, one \<^typ>\<open>char\<close> per code point, so the
  model covers the code points 0 to 255. Python's character classes are written out on
  that range. Floats (timeouts, clock readings, durations) are idealised as reals.
\<close>

subsection \<open>String helpers of the Python runtime\<close>

definition py_whitespace :: "char list" where
  "py_whitespace =
     [CHR 0x09, CHR 0x0A, CHR 0x0B, CHR 0x0C, CHR 0x0D, CHR 0x1C, CHR 0x1D, CHR 0x1E,
      CHR 0x1F, CHR 0x20, CHR 0x85, CHR 0xA0]"

definition py_isspace :: "char \<Rightarrow> bool" where
  "py_isspace c = (c \<in> set py_whitespace)"

definition py_digits :: "char list" where
  "py_digits = ''0123456789'' @ [CHR 0xB2, CHR 0xB3, CHR 0xB9]"

text \<open>\<^verbatim>\<open>s.isdigit()\<close>: non-empty and every character is a digit.\<close>

definition isdigit :: "string \<Rightarrow> bool" where
  "isdigit s = (s \<noteq> [] \<and> list_all (\<lambda>c. c \<in> set py_digits) s)"

text \<open>\<^verbatim>\<open>s.strip()\<close>: whitespace removed at both ends.\<close>

definition lstrip :: "string \<Rightarrow> string" where
  "lstrip s = dropWhile py_isspace s"

definition rstrip :: "string \<Rightarrow> string" where
  "rstrip s = rev (dropWhile py_isspace (rev s))"

definition strip :: "string \<Rightarrow> string" where
  "strip s = rstrip (lstrip s)"

text \<open>\<^verbatim>\<open>s.startswith(p)\<close>.\<close>

definition startswith :: "string \<Rightarrow> string \<Rightarrow> bool" where
  "startswith s p = (take (length p) s = p)"

text \<open>\<^verbatim>\<open>str(n)\<close> for an integer: decimal digits, a minus sign when negative.\<close>

fun str_nat :: "nat \<Rightarrow> string" where
  "str_nat n =
     (if n < 10 then [''0123456789'' ! n]
      else str_nat (n div 10) @ [''0123456789'' ! (n mod 10)])"

declare str_nat.simps [simp del]

definition str_int :: "int \<Rightarrow> string" where
  "str_int i = (if i < 0 then CHR ''-'' # str_nat (nat (- i)) else str_nat (nat i))"

subsection \<open>Data model\<close>

datatype OutputFormat = JSON | YAML | HUMAN | AI | RAW

fun format_value :: "OutputFormat \<Rightarrow> string" where
  "format_value JSON = ''json''"
| "format_value YAML = ''yaml''"
| "format_value HUMAN = ''human''"
| "format_value AI = ''ai''"
| "format_value RAW = ''raw''"

text \<open>
  The exceptions that reach the executor's handlers, each carrying its message
  (\<^verbatim>\<open>str(e)\<close>). \<open>ValueError\<close> is what the tokenizer raises; \<open>OtherException\<close> stands for
  any further subclass of \<^verbatim>\<open>Exception\<close>, such as the \<^verbatim>\<open>OSError\<close> of a failed spawn.
\<close>

datatype exn =
    CommandValidationError string
  | CommandTimeoutError string
  | ValueError string
  | OtherException string

fun str_exn :: "exn \<Rightarrow> string" where
  "str_exn (CommandValidationError m) = m"
| "str_exn (CommandTimeoutError m) = m"
| "str_exn (ValueError m) = m"
| "str_exn (OtherException m) = m"

text \<open>
  Values that decoding the output can produce (\<open>PNone\<close> is Python's \<^verbatim>\<open>None\<close>). A
  dictionary is the list of its items in insertion order; its keys are the hashable
  values among these. Floats are not represented.
\<close>

datatype pykey = KNone | KBool bool | KInt int | KStr string

datatype pyval =
    PNone
  | PBool bool
  | PInt int
  | PStr string
  | PList "pyval list"
  | PDict "(pykey \<times> pyval) list"

record CommandResult =
  success :: bool
  exit_code :: int
  stdout :: string
  stderr :: string
  duration :: real
  command :: "string list"
  output_format :: OutputFormat
  parsed_output :: pyval
  error :: "string option"

record CommandContext =
  request_id :: string
  session_id :: "string option"
  timeout :: "real option"
  environment :: "string \<rightharpoonup> string"
  working_dir :: "string option"
  stream_output :: bool

text \<open>Python truthiness of an optional string: \<^verbatim>\<open>None\<close> and \<^verbatim>\<open>""\<close> are false.\<close>

fun truthy :: "string option \<Rightarrow> bool" where
  "truthy None = False"
| "truthy (Some s) = (s \<noteq> [])"

definition CHECKPOINT_COMMANDS :: "string list" where
  "CHECKPOINT_COMMANDS =
     [''step-assert'', ''step-interact'', ''step-navigate'', ''step-window'', ''step-data'',
      ''step-dialog'', ''step-wait'', ''step-file'', ''step-misc'', ''library'']"

definition EXIT_CODES :: "(int \<times> string) list" where
  "EXIT_CODES =
     [(0, ''Success''),
      (1, ''General error''),
      (2, ''Command line parsing error''),
      (3, ''Authentication error''),
      (4, ''Configuration error''),
      (5, ''Resource not found''),
      (6, ''Validation error''),
      (7, ''API error''),
      (8, ''Timeout error''),
      (9, ''Permission denied''),
      (127, ''Command not found'')]"

subsection \<open>Result/error mapper\<close>

definition get_error_message :: "int \<Rightarrow> string \<Rightarrow> string" where
  "get_error_message code err =
     (let base_msg = (case map_of EXIT_CODES code of
                        Some m \<Rightarrow> m
                      | None \<Rightarrow> ''Unknown error (code: '' @ str_int code @ '')'')
      in if strip err \<noteq> [] then base_msg @ '': '' @ strip err else base_msg)"

subsection \<open>Command validator\<close>

definition validate_command ::
  "string \<Rightarrow> string option \<Rightarrow> string option \<Rightarrow> CommandContext option \<Rightarrow> exn + unit" where
  "validate_command cmd subcommand checkpoint_id context =
     (if cmd \<in> set CHECKPOINT_COMMANDS then
        (let checkpoint_id' =
               (if \<not> truthy checkpoint_id \<and> context \<noteq> None
                then session_id (the context) else checkpoint_id)
         in if \<not> truthy checkpoint_id' \<and> cmd \<noteq> ''library''
            then Inl (CommandValidationError
                   (''Command '' @ [CHR 0x27] @ cmd @ [CHR 0x27] @ '' requires checkpoint ID. ''
                    @ ''Provide it explicitly or set VIRTUOSO_SESSION_ID''))
            else Inr ())
      else Inr ())"

subsection \<open>Tokenizer: \<^verbatim>\<open>shlex.split\<close> of the standard library\<close>

text \<open>
  \<^verbatim>\<open>shlex.split(s)\<close> runs the POSIX-mode lexer with \<^verbatim>\<open>whitespace_split\<close> set and no
  comment characters. Its \<^verbatim>\<open>read_token\<close> is a state machine over the characters: state
  \<^verbatim>\<open>' '\<close> (between tokens), \<^verbatim>\<open>'a'\<close> (inside a word), a quote character (inside quotes)
  or the escape character (after a backslash); \<open>escapedstate\<close> is the state to return to
  after an escape and \<open>quoted\<close> records that the token had a quoted part.
  \<open>read_tokens\<close> runs the machine over the whole input and collects the tokens; each
  emitted token restarts the machine as a new call of \<^verbatim>\<open>read_token\<close> does.
\<close>

datatype lex_state = Blank | Word | Quote char | Escape char

definition shlex_whitespace :: "char list" where
  "shlex_whitespace = [CHR '' '', CHR 0x09, CHR 0x0D, CHR 0x0A]"

definition shlex_quotes :: "char list" where
  "shlex_quotes = [CHR 0x27, CHR 0x22]"

definition shlex_escape :: "char list" where
  "shlex_escape = [CHR 0x5C]"

definition shlex_escapedquotes :: "char list" where
  "shlex_escapedquotes = [CHR 0x22]"

text \<open>At the end of the input an unquoted empty token is the end marker, not a token.\<close>

definition eof_token :: "bool \<Rightarrow> string \<Rightarrow> string list" where
  "eof_token quoted tok = (if \<not> quoted \<and> tok = [] then [] else [tok])"

definition emit :: "string \<Rightarrow> exn + string list \<Rightarrow> exn + string list" where
  "emit tok r = (case r of Inl e \<Rightarrow> Inl e | Inr ts \<Rightarrow> Inr (tok # ts))"

fun is_quote_state :: "lex_state \<Rightarrow> bool" where
  "is_quote_state (Quote q) = True"
| "is_quote_state _ = False"

fun read_tokens ::
  "lex_state \<Rightarrow> lex_state \<Rightarrow> bool \<Rightarrow> string \<Rightarrow> string \<Rightarrow> exn + string list" where
  "read_tokens Blank es quoted tok [] = Inr (eof_token quoted tok)"
| "read_tokens Word es quoted tok [] = Inr (eof_token quoted tok)"
| "read_tokens (Quote q) es quoted tok [] = Inl (ValueError ''No closing quotation'')"
| "read_tokens (Escape e) es quoted tok [] = Inl (ValueError ''No escaped character'')"
| "read_tokens Blank es quoted tok (c # cs) =
     (if c \<in> set shlex_whitespace then
        (if tok \<noteq> [] \<or> quoted then emit tok (read_tokens Blank Blank False [] cs)
         else read_tokens Blank es quoted tok cs)
      else if c \<in> set shlex_escape then read_tokens (Escape c) Word quoted tok cs
      else if c \<in> set shlex_quotes then read_tokens (Quote c) es quoted tok cs
      else read_tokens Word es quoted [c] cs)"
| "read_tokens (Quote q) es quoted tok (c # cs) =
     (if c = q then read_tokens Word es True tok cs
      else if c \<in> set shlex_escape \<and> q \<in> set shlex_escapedquotes
        then read_tokens (Escape c) (Quote q) True tok cs
      else read_tokens (Quote q) es True (tok @ [c]) cs)"
| "read_tokens (Escape e) es quoted tok (c # cs) =
     (let tok' = (if is_quote_state es \<and> c \<noteq> e \<and> Quote c \<noteq> es then tok @ [e] else tok)
      in read_tokens es es quoted (tok' @ [c]) cs)"
| "read_tokens Word es quoted tok (c # cs) =
     (if c \<in> set shlex_whitespace then
        (if tok \<noteq> [] \<or> quoted then emit tok (read_tokens Blank Blank False [] cs)
         else read_tokens Blank es quoted tok cs)
      else if c \<in> set shlex_quotes then read_tokens (Quote c) es quoted tok cs
      else if c \<in> set shlex_escape then read_tokens (Escape c) Word quoted tok cs
      else read_tokens Word es quoted (tok @ [c]) cs)"

definition shlex_split :: "string \<Rightarrow> exn + string list" where
  "shlex_split s = read_tokens Blank Blank False [] s"

subsection \<open>Command parser\<close>

type_synonym parsed_command = "string \<times> string option \<times> string option \<times> string list"

definition parse_command :: "string \<Rightarrow> exn + parsed_command" where
  "parse_command command0 =
     (let command1 = strip command0 in
      if command1 = [] then Inl (CommandValidationError ''Empty command'')
      else
        let command2 = (if startswith command1 ''api-cli '' then drop 8 command1 else command1)
        in case shlex_split command2 of
             Inl e \<Rightarrow> Inl e
           | Inr [] \<Rightarrow> Inl (CommandValidationError ''No command specified'')
           | Inr (cmd # rest) \<Rightarrow>
               (let parts = cmd # rest in
                if length parts > 1 then
                  (if cmd \<in> set CHECKPOINT_COMMANDS then
                     (let subcommand = (if length parts > 1 then Some (parts ! 1) else None)
                      in if length parts > 2 \<and> isdigit (parts ! 2)
                         then Inr (cmd, subcommand, Some (parts ! 2), drop 3 parts)
                         else Inr (cmd, subcommand, None, drop 2 parts))
                   else Inr (cmd, None, None, drop 1 parts))
                else Inr (cmd, None, None, [])))"

subsection \<open>Argument builder\<close>

definition build_command_args ::
  "string \<Rightarrow> string \<Rightarrow> string option \<Rightarrow> string option \<Rightarrow> string list \<Rightarrow> OutputFormat
     \<Rightarrow> string list" where
  "build_command_args cli cmd subcommand checkpoint_id args fmt =
     [cli, cmd]
     @ (if truthy subcommand then [the subcommand] else [])
     @ (if truthy checkpoint_id then [the checkpoint_id] else [])
     @ args
     @ (if fmt \<noteq> RAW then [''--output'', format_value fmt] else [])"

subsection \<open>Output parser\<close>

text \<open>
  The decoders \<^verbatim>\<open>json.loads\<close> and \<^verbatim>\<open>yaml.safe_load\<close> and the rendering of a float in an
  f-string belong to the Python runtime; the executor takes them as given. A decoder
  either returns a value or raises (\<open>Inl\<close>).
\<close>

record pylib =
  json_loads :: "string \<Rightarrow> exn + pyval"
  yaml_safe_load :: "string \<Rightarrow> exn + pyval"
  float_str :: "real \<Rightarrow> string"

text \<open>The \<^verbatim>\<open>try\<close> block of \<^verbatim>\<open>_parse_output\<close>.\<close>

definition decode :: "pylib \<Rightarrow> string \<Rightarrow> OutputFormat \<Rightarrow> exn + pyval" where
  "decode lib output format_type =
     (if format_type = JSON then json_loads lib output
      else if format_type = YAML then yaml_safe_load lib output
      else Inr (PStr output))"

text \<open>\<^verbatim>\<open>_parse_output\<close>: the handler \<^verbatim>\<open>except Exception\<close> returns the raw output.\<close>

definition parse_output :: "pylib \<Rightarrow> string \<Rightarrow> OutputFormat \<Rightarrow> exn + pyval" where
  "parse_output lib output format_type =
     (if strip output = [] then Inr PNone
      else case decode lib output format_type of
             Inl e \<Rightarrow> Inr (PStr output)
           | Inr v \<Rightarrow> Inr v)"

subsection \<open>Process runner\<close>

record executor =
  cli_path :: string
  default_timeout :: real
  max_workers :: nat

text \<open>
  What the child process does is outside the program. \<open>proc_outcome\<close> lists what the
  calls \<^verbatim>\<open>subprocess.Popen\<close> and \<^verbatim>\<open>communicate(timeout)\<close> can do: \<open>SpawnFailed\<close> when
  \<^verbatim>\<open>Popen\<close> raises, \<open>CommFailed\<close> when \<^verbatim>\<open>communicate\<close> raises an exception other than
  \<^verbatim>\<open>TimeoutExpired\<close>, \<open>Expired\<close> when it raises \<^verbatim>\<open>TimeoutExpired\<close> (with the output
  collected after the kill), and \<open>Exited\<close> with the return code, stdout and stderr.
\<close>

datatype proc_outcome =
    SpawnFailed string
  | CommFailed string
  | Expired string string
  | Exited int string string

text \<open>
  The surroundings of one call of \<^verbatim>\<open>execute\<close>: the inherited environment, the
  environment of \<^verbatim>\<open>settings.get_cli_env()\<close>, the two readings of \<^verbatim>\<open>time.time()\<close>, and
  the behaviour of the process for the argument list, environment, working directory
  and timeout it is started with.
\<close>

record world =
  os_environ :: "string \<rightharpoonup> string"
  cli_env :: "string \<rightharpoonup> string"
  time_start :: real
  time_end :: real
  popen :: "string list \<Rightarrow> (string \<rightharpoonup> string) \<Rightarrow> string option \<Rightarrow> real \<Rightarrow> proc_outcome"

text \<open>The actions on processes that a call performs, in order.\<close>

datatype event = Spawn "string list" | Kill

definition default_context :: CommandContext where
  "default_context =
     \<lparr>request_id = ''sync'', session_id = None, timeout = None, environment = Map.empty,
      working_dir = None, stream_output = False\<rparr>"

text \<open>\<^verbatim>\<open>context or CommandContext(request_id="sync")\<close>.\<close>

definition resolve_context :: "CommandContext option \<Rightarrow> CommandContext" where
  "resolve_context context = (case context of None \<Rightarrow> default_context | Some c \<Rightarrow> c)"

definition process_env :: "world \<Rightarrow> CommandContext \<Rightarrow> (string \<rightharpoonup> string)" where
  "process_env w ctx =
     (let env = os_environ w ++ cli_env w ++ environment ctx
      in if truthy (session_id ctx)
         then env(''VIRTUOSO_SESSION_ID'' \<mapsto> the (session_id ctx)) else env)"

text \<open>\<^verbatim>\<open>context.timeout or self.default_timeout\<close>: a timeout of zero is false.\<close>

definition effective_timeout :: "executor \<Rightarrow> CommandContext \<Rightarrow> real" where
  "effective_timeout ex ctx =
     (case timeout ctx of
        None \<Rightarrow> default_timeout ex
      | Some t \<Rightarrow> if t \<noteq> 0 then t else default_timeout ex)"

definition completed_result ::
  "pylib \<Rightarrow> world \<Rightarrow> string list \<Rightarrow> OutputFormat \<Rightarrow> int \<Rightarrow> string \<Rightarrow> string
     \<Rightarrow> exn + CommandResult" where
  "completed_result lib w cmd_args fmt code out err =
     (case (if out \<noteq> [] \<and> fmt \<noteq> RAW then parse_output lib out fmt else Inr PNone) of
        Inl e \<Rightarrow> Inl e
      | Inr parsed \<Rightarrow>
          Inr \<lparr>success = (code = 0), exit_code = code, stdout = out, stderr = err,
               duration = time_end w - time_start w, command = cmd_args,
               output_format = fmt, parsed_output = parsed,
               error = (if code \<noteq> 0 then Some (get_error_message code err) else None)\<rparr>)"

text \<open>The body of the \<^verbatim>\<open>try\<close> block of \<^verbatim>\<open>execute\<close>, with the process actions it performs.\<close>

definition execute_try ::
  "pylib \<Rightarrow> executor \<Rightarrow> world \<Rightarrow> string \<Rightarrow> CommandContext \<Rightarrow> OutputFormat
     \<Rightarrow> event list \<times> (exn + CommandResult)" where
  "execute_try lib ex w cmdstr ctx fmt =
     (case parse_command cmdstr of
        Inl e \<Rightarrow> ([], Inl e)
      | Inr (cmd, subcmd, checkpoint_id, args) \<Rightarrow>
          (case validate_command cmd subcmd checkpoint_id (Some ctx) of
             Inl e \<Rightarrow> ([], Inl e)
           | Inr _ \<Rightarrow>
               (let cmd_args = build_command_args (cli_path ex) cmd subcmd checkpoint_id args fmt;
                    env = process_env w ctx;
                    tmo = effective_timeout ex ctx
                in case popen w cmd_args env (working_dir ctx) tmo of
                     SpawnFailed m \<Rightarrow> ([], Inl (OtherException m))
                   | CommFailed m \<Rightarrow> ([Spawn cmd_args], Inl (OtherException m))
                   | Expired out err \<Rightarrow>
                       ([Spawn cmd_args, Kill],
                        Inl (CommandTimeoutError
                          (''Command timed out after '' @ float_str lib tmo @ '' seconds'')))
                   | Exited code out err \<Rightarrow>
                       ([Spawn cmd_args], completed_result lib w cmd_args fmt code out err))))"

text \<open>The result built by the handler \<^verbatim>\<open>except Exception as e\<close> of \<^verbatim>\<open>execute\<close>.\<close>

definition exception_result :: "world \<Rightarrow> string \<Rightarrow> OutputFormat \<Rightarrow> exn \<Rightarrow> CommandResult" where
  "exception_result w cmdstr fmt e =
     \<lparr>success = False, exit_code = - 1, stdout = [], stderr = str_exn e,
      duration = time_end w - time_start w, command = [cmdstr], output_format = fmt,
      parsed_output = PNone, error = Some (str_exn e)\<rparr>"

text \<open>The two handlers of \<^verbatim>\<open>execute\<close>: a timeout is raised again, anything else is a result.\<close>

fun handlers :: "world \<Rightarrow> string \<Rightarrow> OutputFormat \<Rightarrow> exn + CommandResult \<Rightarrow> exn + CommandResult" where
  "handlers w cmdstr fmt (Inl (CommandTimeoutError m)) = Inl (CommandTimeoutError m)"
| "handlers w cmdstr fmt (Inl e) = Inr (exception_result w cmdstr fmt e)"
| "handlers w cmdstr fmt (Inr r) = Inr r"

definition execute ::
  "pylib \<Rightarrow> executor \<Rightarrow> world \<Rightarrow> string \<Rightarrow> CommandContext option \<Rightarrow> OutputFormat
     \<Rightarrow> event list \<times> (exn + CommandResult)" where
  "execute lib ex w cmdstr context fmt =
     (let (evs, r) = execute_try lib ex w cmdstr (resolve_context context) fmt
      in (evs, handlers w cmdstr fmt r))"

subsection \<open>Batch execution\<close>

text \<open>The result appended when \<^verbatim>\<open>future.result\<close> raises the futures' \<^verbatim>\<open>TimeoutError\<close>.\<close>

definition batch_timeout_result :: "executor \<Rightarrow> string \<Rightarrow> OutputFormat \<Rightarrow> CommandResult" where
  "batch_timeout_result ex cmdstr fmt =
     \<lparr>success = False, exit_code = 8, stdout = [], stderr = ''Command timed out'',
      duration = default_timeout ex, command = [cmdstr], output_format = fmt,
      parsed_output = PNone, error = Some ''Timeout''\<rparr>"

text \<open>The result appended when \<^verbatim>\<open>future.result\<close> raises any other exception.\<close>

definition batch_error_result :: "string \<Rightarrow> OutputFormat \<Rightarrow> exn \<Rightarrow> CommandResult" where
  "batch_error_result cmdstr fmt e =
     \<lparr>success = False, exit_code = - 1, stdout = [], stderr = str_exn e,
      duration = 0, command = [cmdstr], output_format = fmt,
      parsed_output = PNone, error = Some (str_exn e)\<rparr>"

text \<open>
  One round of the collecting loop. \<open>late\<close> says that the wait on the future exceeded
  the default timeout; otherwise \<^verbatim>\<open>future.result\<close> returns what \<^verbatim>\<open>execute\<close> returned or
  raises what it raised.
\<close>

definition collect ::
  "pylib \<Rightarrow> executor \<Rightarrow> world \<Rightarrow> bool \<Rightarrow> string \<Rightarrow> CommandContext option \<Rightarrow> OutputFormat
     \<Rightarrow> CommandResult" where
  "collect lib ex w late cmdstr context fmt =
     (if late then batch_timeout_result ex cmdstr fmt
      else case snd (execute lib ex w cmdstr context fmt) of
             Inr r \<Rightarrow> r
           | Inl e \<Rightarrow> batch_error_result cmdstr fmt e)"

text \<open>
  \<^verbatim>\<open>execute_batch\<close>: the i-th command runs in the surroundings \<open>worlds i\<close>, and \<open>late i\<close>
  says whether the wait on its future expired. Futures are collected in the order of
  submission, whatever the order in which they complete.
\<close>

definition execute_batch ::
  "pylib \<Rightarrow> executor \<Rightarrow> (nat \<Rightarrow> world) \<Rightarrow> (nat \<Rightarrow> bool) \<Rightarrow> string list
     \<Rightarrow> CommandContext option \<Rightarrow> OutputFormat \<Rightarrow> CommandResult list" where
  "execute_batch lib ex worlds late commands context fmt =
     map (\<lambda>(i, cmdstr). collect lib ex (worlds i) (late i) cmdstr context fmt)
       (enumerate 0 commands)"

text \<open>The invariant of \<open>CommandResult\<close>.\<close>

definition result_invariant :: "CommandResult \<Rightarrow> bool" where
  "result_invariant r =
     ((success r \<longleftrightarrow> exit_code r = 0) \<and> (error r \<noteq> None \<longleftrightarrow> \<not> success r))"

subsection \<open>The JSON codec of the standard library\<close>








text \<open>
  \<^verbatim>\<open>json.loads\<close>: the scanner of the decoder. Two kinds of text decode to values that
  the model does not represent, and the model rejects them where Python decodes them:
  numbers with a fraction or an exponent and the literals \<^verbatim>\<open>NaN\<close> and \<^verbatim>\<open>Infinity\<close>
  (floats), and escapes \<^verbatim>\<open>\uXXXX\<close> of a code point above 255. On every other text the
  model accepts what the decoder accepts, with the same value. The messages of the
  decoding errors are given without their positions.
\<close>

definition json_whitespace :: "char list" where
  "json_whitespace = [CHR '' '', CHR 0x09, CHR 0x0A, CHR 0x0D]"

definition skip_ws :: "string \<Rightarrow> string" where
  "skip_ws s = dropWhile (\<lambda>c. c \<in> set json_whitespace) s"

definition hexval :: "char \<Rightarrow> nat option" where
  "hexval c =
     map_of (zip ''0123456789abcdefABCDEF''
               [0, 1, 2, 3, 4, 5, 6, 7, 8, 9, 10, 11, 12, 13, 14, 15, 10, 11, 12, 13, 14, 15]) c"

definition unhex4 :: "char \<Rightarrow> char \<Rightarrow> char \<Rightarrow> char \<Rightarrow> nat option" where
  "unhex4 a b c d =
     (case (hexval a, hexval b, hexval c, hexval d) of
        (Some x, Some y, Some z, Some w) \<Rightarrow> Some (((x * 16 + y) * 16 + z) * 16 + w)
      | _ \<Rightarrow> None)"

definition backslash_escapes :: "(char \<times> char) list" where
  "backslash_escapes =
     [(CHR 0x22, CHR 0x22), (CHR 0x5C, CHR 0x5C), (CHR ''/'', CHR ''/''),
      (CHR ''b'', CHR 0x08), (CHR ''f'', CHR 0x0C), (CHR ''n'', CHR 0x0A),
      (CHR ''r'', CHR 0x0D), (CHR ''t'', CHR 0x09)]"

text \<open>\<open>scanstring\<close> reads a string literal after its opening quote (strict mode).\<close>

fun scanstring :: "string \<Rightarrow> string \<Rightarrow> exn + (string \<times> string)" where
  "scanstring acc [] = Inl (ValueError ''Unterminated string'')"
| "scanstring acc (c # cs) =
     (if c = CHR 0x22 then Inr (acc, cs)
      else if c = CHR 0x5C then
        (case cs of
           [] \<Rightarrow> Inl (ValueError ''Unterminated string'')
         | e # r \<Rightarrow>
             if e = CHR ''u'' then
               (case r of
                  h1 # h2 # h3 # h4 # r' \<Rightarrow>
                    (case unhex4 h1 h2 h3 h4 of
                       None \<Rightarrow> Inl (ValueError ''Invalid unicode escape'')
                     | Some n \<Rightarrow>
                         if n < 256 then scanstring (acc @ [char_of n]) r'
                         else Inl (OtherException ''code point above 255''))
                | _ \<Rightarrow> Inl (ValueError ''Invalid unicode escape''))
             else
               (case map_of backslash_escapes e of
                  None \<Rightarrow> Inl (ValueError ''Invalid escape'')
                | Some ch \<Rightarrow> scanstring (acc @ [ch]) r))
      else if (of_char c :: nat) < 32 then Inl (ValueError ''Invalid control character'')
      else scanstring (acc @ [c]) cs)"

definition is_digit :: "char \<Rightarrow> bool" where
  "is_digit c = (c \<in> set ''0123456789'')"

definition digit_val :: "char \<Rightarrow> nat" where
  "digit_val c = (of_char c :: nat) - 48"

definition nat_of_digits :: "string \<Rightarrow> nat" where
  "nat_of_digits ds = foldl (\<lambda>n c. 10 * n + digit_val c) 0 ds"

text \<open>What follows the integer part makes the number a float.\<close>

fun float_continues :: "string \<Rightarrow> bool" where
  "float_continues (c # d # r) =
     ((c = CHR ''.'' \<and> is_digit d)
      \<or> ((c = CHR ''e'' \<or> c = CHR ''E'')
          \<and> (is_digit d \<or> ((d = CHR ''+'' \<or> d = CHR ''-'') \<and> r \<noteq> [] \<and> is_digit (hd r)))))"
| "float_continues _ = False"

definition finish_number :: "bool \<Rightarrow> string \<Rightarrow> string \<Rightarrow> exn + (pyval \<times> string)" where
  "finish_number neg ds r =
     (if float_continues r then Inl (OtherException ''float'')
      else Inr (PInt (if neg then - int (nat_of_digits ds) else int (nat_of_digits ds)), r))"

definition match_number :: "string \<Rightarrow> exn + (pyval \<times> string)" where
  "match_number s =
     (let neg = (s \<noteq> [] \<and> hd s = CHR ''-'');
          s1 = (if neg then tl s else s)
      in case s1 of
           [] \<Rightarrow> Inl (ValueError ''Expecting value'')
         | d # r \<Rightarrow>
             if d = CHR ''0'' then finish_number neg [d] r
             else if is_digit d
               then finish_number neg (d # takeWhile is_digit r) (dropWhile is_digit r)
             else Inl (ValueError ''Expecting value''))"

text \<open>The literals and numbers: the last cases of \<^verbatim>\<open>scan_once\<close>.\<close>

definition scan_atom :: "string \<Rightarrow> exn + (pyval \<times> string)" where
  "scan_atom s =
     (if startswith s ''null'' then Inr (PNone, drop 4 s)
      else if startswith s ''true'' then Inr (PBool True, drop 4 s)
      else if startswith s ''false'' then Inr (PBool False, drop 5 s)
      else if startswith s ''NaN'' \<or> startswith s ''Infinity'' \<or> startswith s ''-Infinity''
        then Inl (OtherException ''float'')
      else match_number s)"

text \<open>Storing an item in a dictionary: a key that is present keeps its position.\<close>

fun dict_set :: "(pykey \<times> pyval) list \<Rightarrow> pykey \<Rightarrow> pyval \<Rightarrow> (pykey \<times> pyval) list" where
  "dict_set [] k v = [(k, v)]"
| "dict_set (p # ps) k v = (if fst p = k then (k, v) # ps else p # dict_set ps k v)"

text \<open>
  \<open>scan_once\<close>, the loop of the array parser and the loop of the object parser. The
  first argument bounds the depth of the calls. \<open>py_json_loads\<close> starts with more than
  twice the length of the text, which is never used up, since two calls in a row
  consume a character. The limits of the runtime on the depth of nesting and on the
  length of integer literals are not modelled.
\<close>

fun scan_once :: "nat \<Rightarrow> string \<Rightarrow> exn + (pyval \<times> string)"
  and parse_array :: "nat \<Rightarrow> pyval list \<Rightarrow> string \<Rightarrow> exn + (pyval \<times> string)"
  and parse_object :: "nat \<Rightarrow> (pykey \<times> pyval) list \<Rightarrow> string \<Rightarrow> exn + (pyval \<times> string)" where
  "scan_once 0 s = Inl (OtherException ''RecursionError'')"
| "scan_once (Suc n) [] = Inl (ValueError ''Expecting value'')"
| "scan_once (Suc n) (c # cs) =
     (if c = CHR 0x22 then
        (case scanstring [] cs of Inl e \<Rightarrow> Inl e | Inr (str, r) \<Rightarrow> Inr (PStr str, r))
      else if c = CHR ''{'' then
        (case skip_ws cs of
           [] \<Rightarrow> Inl (ValueError ''Expecting property name enclosed in double quotes'')
         | d # r \<Rightarrow> if d = CHR ''}'' then Inr (PDict [], r) else parse_object n [] (d # r))
      else if c = CHR ''['' then
        (case skip_ws cs of
           [] \<Rightarrow> Inl (ValueError ''Expecting value'')
         | d # r \<Rightarrow> if d = CHR '']'' then Inr (PList [], r) else parse_array n [] (d # r))
      else scan_atom (c # cs))"
| "parse_array 0 acc s = Inl (OtherException ''RecursionError'')"
| "parse_array (Suc n) acc s =
     (case scan_once n s of
        Inl e \<Rightarrow> Inl e
      | Inr (v, r) \<Rightarrow>
          (case skip_ws r of
             [] \<Rightarrow> Inl (ValueError ''Expecting , delimiter'')
           | d # r' \<Rightarrow>
               if d = CHR '']'' then Inr (PList (acc @ [v]), r')
               else if d = CHR '','' then parse_array n (acc @ [v]) (skip_ws r')
               else Inl (ValueError ''Expecting , delimiter'')))"
| "parse_object 0 acc s = Inl (OtherException ''RecursionError'')"
| "parse_object (Suc n) acc [] =
     Inl (ValueError ''Expecting property name enclosed in double quotes'')"
| "parse_object (Suc n) acc (c # cs) =
     (if c \<noteq> CHR 0x22
        then Inl (ValueError ''Expecting property name enclosed in double quotes'')
      else case scanstring [] cs of
             Inl e \<Rightarrow> Inl e
           | Inr (key, r) \<Rightarrow>
               (case skip_ws r of
                  [] \<Rightarrow> Inl (ValueError ''Expecting : delimiter'')
                | d # r1 \<Rightarrow>
                    if d \<noteq> CHR '':'' then Inl (ValueError ''Expecting : delimiter'')
                    else case scan_once n (skip_ws r1) of
                           Inl e \<Rightarrow> Inl e
                         | Inr (v, r2) \<Rightarrow>
                             (case skip_ws r2 of
                                [] \<Rightarrow> Inl (ValueError ''Expecting , delimiter'')
                              | d2 # r3 \<Rightarrow>
                                  if d2 = CHR ''}''
                                    then Inr (PDict (dict_set acc (KStr key) v), r3)
                                  else if d2 = CHR '',''
                                    then parse_object n (dict_set acc (KStr key) v) (skip_ws r3)
                                  else Inl (ValueError ''Expecting , delimiter''))))"

definition py_json_loads :: "string \<Rightarrow> exn + pyval" where
  "py_json_loads s =
     (case scan_once (Suc (length s + length s)) (skip_ws s) of
        Inl e \<Rightarrow> Inl e
      | Inr (v, r) \<Rightarrow> if skip_ws r = [] then Inr v else Inl (ValueError ''Extra data''))"






text \<open>
  What the calls of the decoder with bound \<open>n\<close> satisfy: a value is returned with a
  shorter rest of the text, and a bound above twice the length of the text is not used up.
\<close>

definition calls_ok :: "nat \<Rightarrow> bool" where
  "calls_ok n =
     ((\<forall>s. (\<forall>v r. scan_once n s = Inr (v, r) \<longrightarrow> length r < length s)
           \<and> (2 * length s < n \<longrightarrow> scan_once n s \<noteq> Inl (OtherException ''RecursionError'')))
      \<and> (\<forall>acc s. (\<forall>v r. parse_array n acc s = Inr (v, r) \<longrightarrow> length r < length s)
           \<and> (2 * length s + 2 \<le> n
                \<longrightarrow> parse_array n acc s \<noteq> Inl (OtherException ''RecursionError'')))
      \<and> (\<forall>acc s. (\<forall>v r. parse_object n acc s = Inr (v, r) \<longrightarrow> length r < length s)
           \<and> (2 * length s + 2 \<le> n
                \<longrightarrow> parse_object n acc s \<noteq> Inl (OtherException ''RecursionError''))))"

subsection \<open>Test doubles\<close>

text \<open>
  The doubles of the repository's tests of the executor: an executor on \<^verbatim>\<open>/usr/bin/echo\<close>,
  a process that behaves in a fixed way whatever it is started with, and a runtime with
  the JSON decoder above, a YAML decoder that rejects every input and a rendering of
  floats that knows the timeouts of the tests.
\<close>

definition test_lib :: pylib where
  "test_lib =
     \<lparr>json_loads = py_json_loads,
      yaml_safe_load = (\<lambda>s. Inl (OtherException ''could not parse'')),
      float_str = (\<lambda>t. if t = 300 then ''300.0'' else ''0.1'')\<rparr>"

definition test_executor :: executor where
  "test_executor = \<lparr>cli_path = ''/usr/bin/echo'', default_timeout = 300, max_workers = 4\<rparr>"

definition mock_world :: "proc_outcome \<Rightarrow> world" where
  "mock_world outcome =
     \<lparr>os_environ = Map.empty, cli_env = [''TEST_ENV'' \<mapsto> ''value''],
      time_start = 0, time_end = 1, popen = (\<lambda>argv env cwd tmo. outcome)\<rparr>"

section \<open>Properties\<close>

subsection \<open>Unfolding rules and auxiliary facts\<close>

lemmas strip_defs = strip_def lstrip_def rstrip_def py_isspace_def py_whitespace_def
lemmas shlex_defs = shlex_split_def shlex_whitespace_def shlex_quotes_def shlex_escape_def
  shlex_escapedquotes_def emit_def eof_token_def

lemmas test_defs = test_lib_def test_executor_def mock_world_def
lemmas run_defs = execute_def execute_try_def resolve_context_def default_context_def
  parse_command_def strip_defs startswith_def shlex_defs CHECKPOINT_COMMANDS_def
  validate_command_def build_command_args_def completed_result_def exception_result_def
  get_error_message_def EXIT_CODES_def effective_timeout_def process_env_def Let_def
  isdigit_def py_digits_def

lemma map_of_EXIT_CODES:
  "map_of EXIT_CODES code =
     (if code = 0 then Some ''Success''
      else if code = 1 then Some ''General error''
      else if code = 2 then Some ''Command line parsing error''
      else if code = 3 then Some ''Authentication error''
      else if code = 4 then Some ''Configuration error''
      else if code = 5 then Some ''Resource not found''
      else if code = 6 then Some ''Validation error''
      else if code = 7 then Some ''API error''
      else if code = 8 then Some ''Timeout error''
      else if code = 9 then Some ''Permission denied''
      else if code = 127 then Some ''Command not found''
      else None)"
  by (simp add: EXIT_CODES_def)

lemma requires_checkpoint_sublist:
  "sublist ''requires checkpoint ID''
     (''Command '' @ [CHR 0x27] @ cmd @ [CHR 0x27] @ '' requires checkpoint ID. ''
      @ ''Provide it explicitly or set VIRTUOSO_SESSION_ID'')"
proof -
  have "''Command '' @ [CHR 0x27] @ cmd @ [CHR 0x27] @ '' requires checkpoint ID. ''
          @ ''Provide it explicitly or set VIRTUOSO_SESSION_ID''
        = (''Command '' @ [CHR 0x27] @ cmd @ [CHR 0x27] @ '' '') @ ''requires checkpoint ID''
          @ (''. '' @ ''Provide it explicitly or set VIRTUOSO_SESSION_ID'')"
    by simp
  then show ?thesis
    unfolding sublist_def by blast
qed




lemma handlers_not_timeout:
  "(\<And>m. e \<noteq> CommandTimeoutError m) \<Longrightarrow> handlers w c fmt (Inl e) = Inr (exception_result w c fmt e)"
  by (cases e) auto

lemma parse_output_Inr: "\<exists>v. parse_output lib s fmt = Inr v"
  by (simp add: parse_output_def split: sum.splits)

lemma completed_result_Inr:
  "\<exists>r. completed_result lib w argv fmt code out err = Inr r \<and> success r = (code = 0)
     \<and> exit_code r = code
     \<and> error r = (if code \<noteq> 0 then Some (get_error_message code err) else None)"
proof -
  obtain v where "(if out \<noteq> [] \<and> fmt \<noteq> RAW then parse_output lib out fmt else Inr PNone) = Inr v"
    using parse_output_Inr [of lib out fmt] by (cases "out \<noteq> [] \<and> fmt \<noteq> RAW") auto
  then show ?thesis
    by (simp add: completed_result_def)
qed

lemma completed_result_invariant:
  "completed_result lib w argv fmt code out err = Inr r \<Longrightarrow> result_invariant r"
  using completed_result_Inr [of lib w argv fmt code out err]
  by (auto simp: result_invariant_def)

lemma exception_result_invariant: "result_invariant (exception_result w c fmt e)"
  by (simp add: exception_result_def result_invariant_def)

lemma handlers_Inr:
  assumes "handlers w c fmt x = Inr r"
  shows "x = Inr r \<or> (\<exists>e. x = Inl e \<and> (\<forall>m. e \<noteq> CommandTimeoutError m) \<and> r = exception_result w c fmt e)"
  using assms by (cases "(w, c, fmt, x)" rule: handlers.cases) auto

lemma execute_try_Inr:
  assumes "snd (execute_try lib ex w c cx fmt) = Inr r"
  shows "\<exists>argv code out err. completed_result lib w argv fmt code out err = Inr r"
  using assms
  by (auto simp: execute_try_def Let_def split: sum.splits prod.splits proc_outcome.splits)

lemma execute_invariant:
  assumes "snd (execute lib ex w c ctx fmt) = Inr r"
  shows "result_invariant r"
proof -
  have "handlers w c fmt (snd (execute_try lib ex w c (resolve_context ctx) fmt)) = Inr r"
    using assms by (simp add: execute_def split: prod.splits)
  then consider "snd (execute_try lib ex w c (resolve_context ctx) fmt) = Inr r"
    | e where "r = exception_result w c fmt e"
    using handlers_Inr by blast
  then show ?thesis
  proof cases
    case 1
    then show ?thesis
      using execute_try_Inr completed_result_invariant by blast
  next
    case 2
    then show ?thesis
      by (simp add: exception_result_invariant)
  qed
qed

lemma collect_invariant: "result_invariant (collect lib ex w late c ctx fmt)"
  by (auto simp: collect_def batch_timeout_result_def batch_error_result_def
      result_invariant_def [of "\<lparr>success = _, exit_code = _, stdout = _, stderr = _, duration = _, command = _, output_format = _, parsed_output = _, error = _\<rparr>"]
      split: sum.splits dest: execute_invariant)

lemma execute_batch_nth:
  "i < length cs \<Longrightarrow>
     execute_batch lib ex worlds late cs ctx fmt ! i
       = collect lib ex (worlds i) (late i) (cs ! i) ctx fmt"
  by (simp add: execute_batch_def nth_enumerate_eq)

lemma execute_batch_length:
  "length (execute_batch lib ex worlds late cs ctx fmt) = length cs"
  by (simp add: execute_batch_def)



lemma get_error_message_8: "get_error_message 8 err \<noteq> ''Timeout''"
  by (simp add: get_error_message_def EXIT_CODES_def Let_def)

lemma test_execute_failure:
  "execute test_lib test_executor (mock_world (Exited 5 [] ''Error: Not found''))
     ''get-project invalid'' None JSON
   = ([Spawn [''/usr/bin/echo'', ''get-project'', ''invalid'', ''--output'', ''json'']],
      Inr \<lparr>success = False, exit_code = 5, stdout = [], stderr = ''Error: Not found'',
           duration = 1, command = [''/usr/bin/echo'', ''get-project'', ''invalid'', ''--output'', ''json''],
           output_format = JSON, parsed_output = PNone,
           error = Some ''Resource not found: Error: Not found''\<rparr>)"
  by (simp add: run_defs test_defs)

lemma test_execute_spawn_failure:
  "execute test_lib test_executor (mock_world (SpawnFailed ''No such file''))
     ''list-projects'' None JSON
   = ([], Inr \<lparr>success = False, exit_code = - 1, stdout = [], stderr = ''No such file'',
           duration = 1, command = [''list-projects''],
           output_format = JSON, parsed_output = PNone,
           error = Some ''No such file''\<rparr>)"
  by (simp add: run_defs test_defs)

lemma test_execute_timeout:
  "execute test_lib test_executor (mock_world (Expired [] []))
     ''list-projects'' None JSON
   = ([Spawn [''/usr/bin/echo'', ''list-projects'', ''--output'', ''json''], Kill],
      Inl (CommandTimeoutError ''Command timed out after 300.0 seconds''))"
  by (simp add: run_defs test_defs)

subsection \<open>The JSON codec\<close>

lemmas json_loads_defs = py_json_loads_def skip_ws_def json_whitespace_def scan_atom_def
  startswith_def match_number_def finish_number_def nat_of_digits_def digit_val_def
  is_digit_def backslash_escapes_def unhex4_def hexval_def























lemma scan_once_atom:
  assumes "c \<noteq> CHR 0x22" "c \<noteq> CHR ''{''" "c \<noteq> CHR ''[''"
  shows "scan_once (Suc n) (c # cs) = scan_atom (c # cs)"
  using assms by simp













text \<open>The bound on the calls of the decoder is never used up.\<close>

lemma length_skip_ws: "length (skip_ws s) \<le> length s"
  by (simp add: skip_ws_def length_dropWhile_le)

lemma scanstring_shorter: "scanstring acc s = Inr (x, r) \<Longrightarrow> length r < Suc (length s)"
proof (induction acc s rule: scanstring.induct)
  case (1 acc)
  then show ?case by simp
next
  case (2 acc c cs)
  show ?case
  proof (cases "c = CHR 0x22")
    case True
    with 2 show ?thesis by simp
  next
    case nq: False
    show ?thesis
    proof (cases "c = CHR 0x5C")
      case False
      with nq 2 show ?thesis
        by (simp split: if_splits)
    next
      case True
      show ?thesis
      proof (cases cs)
        case Nil
        with True nq 2 show ?thesis by simp
      next
        case (Cons e r')
        show ?thesis
        proof (cases "e = CHR ''u''")
          case False
          then obtain ch where m: "map_of backslash_escapes e = Some ch"
            and s: "scanstring (acc @ [ch]) r' = Inr (x, r)"
            using "2.prems" True nq Cons by (simp split: option.splits)
          have "length r < Suc (length r')"
            using "2.IH"(2) [OF nq True Cons False m s] .
          then show ?thesis using Cons by simp
        next
          case u: True
          then obtain h1 h2 h3 h4 r'' n where r': "r' = h1 # h2 # h3 # h4 # r''"
            and h: "unhex4 h1 h2 h3 h4 = Some n" and n: "n < 256"
            and s: "scanstring (acc @ [char_of n]) r'' = Inr (x, r)"
            using "2.prems" True nq Cons
            by (simp split: list.splits option.splits if_splits)
          have "length r < Suc (length r'')"
            using "2.IH"(1) [OF nq True Cons u r' refl refl refl h n s] .
          then show ?thesis using Cons r' by simp
        qed
      qed
    qed
  qed
qed

lemma scanstring_no_recursion_error:
  "scanstring acc s = Inl e \<Longrightarrow> e \<noteq> OtherException ''RecursionError''"
proof (induction acc s rule: scanstring.induct)
  case (1 acc)
  then show ?case by auto
next
  case (2 acc c cs)
  show ?case
  proof (cases "c = CHR 0x22")
    case True
    with 2 show ?thesis by simp
  next
    case nq: False
    show ?thesis
    proof (cases "c = CHR 0x5C")
      case False
      with nq 2 show ?thesis
        by (auto split: if_splits)
    next
      case True
      show ?thesis
      proof (cases cs)
        case Nil
        with True nq 2 show ?thesis by auto
      next
        case (Cons e' r')
        show ?thesis
        proof (cases "e' = CHR ''u''")
          case False
          show ?thesis
          proof (cases "map_of backslash_escapes e'")
            case None
            then show ?thesis
              using "2.prems" True nq Cons False by auto
          next
            case (Some ch)
            then have "scanstring (acc @ [ch]) r' = Inl e"
              using "2.prems" True nq Cons False by simp
            then show ?thesis
              using "2.IH"(2) [OF nq True Cons False Some] by simp
          qed
        next
          case u: True
          show ?thesis
          proof (cases "\<exists>h1 h2 h3 h4 r'' n. r' = h1 # h2 # h3 # h4 # r''
              \<and> unhex4 h1 h2 h3 h4 = Some n \<and> n < 256")
            case True
            then obtain h1 h2 h3 h4 r'' n where r': "r' = h1 # h2 # h3 # h4 # r''"
              and h: "unhex4 h1 h2 h3 h4 = Some n" and n: "n < 256"
              by blast
            then have "scanstring (acc @ [char_of n]) r'' = Inl e"
              using "2.prems" \<open>c = CHR 0x5C\<close> nq Cons u by simp
            then show ?thesis
              using "2.IH"(1) [OF nq \<open>c = CHR 0x5C\<close> Cons u r' refl refl refl h n] by simp
          next
            case False
            then show ?thesis
              using "2.prems" \<open>c = CHR 0x5C\<close> nq Cons u
              by (auto split: list.splits option.splits if_splits)
          qed
        qed
      qed
    qed
  qed
qed

lemma match_number_shorter: "match_number s = Inr (v, r) \<Longrightarrow> length r < length s"
proof -
  assume a: "match_number s = Inr (v, r)"
  define neg where "neg = (s \<noteq> [] \<and> hd s = CHR ''-'')"
  define s1 where "s1 = (if neg then tl s else s)"
  have l1: "length s1 \<le> length s"
    by (simp add: s1_def)
  from a obtain d t where s1: "s1 = d # t"
    by (cases s1) (auto simp: match_number_def Let_def neg_def s1_def)
  have "r = t \<or> r = dropWhile is_digit t"
    using a s1 unfolding match_number_def Let_def neg_def [symmetric] s1_def [symmetric]
    by (auto simp: finish_number_def split: if_splits)
  then have "length r \<le> length t"
    by (auto simp: length_dropWhile_le)
  then show ?thesis
    using l1 s1 by simp
qed

lemma scan_atom_shorter: "scan_atom s = Inr (v, r) \<Longrightarrow> length r < length s"
proof -
  assume a: "scan_atom s = Inr (v, r)"
  have st: "startswith s p \<Longrightarrow> p \<noteq> [] \<Longrightarrow> length (drop (length p) s) < length s" for p
    by (cases s) (auto simp: startswith_def)
  show ?thesis
    using a st [of "''null''"] st [of "''true''"] st [of "''false''"] match_number_shorter [of s v r]
    by (auto simp: scan_atom_def split: if_splits)
qed

lemma match_number_no_recursion_error:
  "match_number s = Inl e \<Longrightarrow> e \<noteq> OtherException ''RecursionError''"
proof -
  assume a: "match_number s = Inl e"
  define s1 where "s1 = (if s \<noteq> [] \<and> hd s = CHR ''-'' then tl s else s)"
  show ?thesis
  proof (cases s1)
    case Nil
    with a show ?thesis
      by (auto simp: match_number_def Let_def s1_def [symmetric])
  next
    case (Cons d t)
    with a show ?thesis
      by (auto simp: match_number_def Let_def s1_def [symmetric] finish_number_def
          split: if_splits)
  qed
qed

lemma scan_atom_no_recursion_error:
  "scan_atom s = Inl e \<Longrightarrow> e \<noteq> OtherException ''RecursionError''"
  using match_number_no_recursion_error [of s e]
  by (auto simp: scan_atom_def split: if_splits)

lemma skip_ws_Cons_length: "skip_ws s = d # r \<Longrightarrow> length r < length s"
  using length_skip_ws [of s] by simp

lemma calls_ok_scan_once:
  assumes "calls_ok n"
  shows "scan_once (Suc n) s = Inr (v, r) \<Longrightarrow> length r < length s"
    and "2 * length s < Suc n \<Longrightarrow> scan_once (Suc n) s \<noteq> Inl (OtherException ''RecursionError'')"
proof -
  have arr_lt: "parse_array n acc t = Inr (v, r) \<Longrightarrow> length r < length t"
    and arr_ne: "2 * length t + 2 \<le> n \<Longrightarrow> parse_array n acc t \<noteq> Inl (OtherException ''RecursionError'')"
    and obj_lt: "parse_object n acc' t = Inr (v, r) \<Longrightarrow> length r < length t"
    and obj_ne: "2 * length t + 2 \<le> n \<Longrightarrow> parse_object n acc' t \<noteq> Inl (OtherException ''RecursionError'')"
    for acc acc' t v r
    using assms unfolding calls_ok_def by blast+
  {
    assume a: "scan_once (Suc n) s = Inr (v, r)"
    show "length r < length s"
    proof (cases s)
      case Nil
      with a show ?thesis by simp
    next
      case (Cons c cs)
      consider (str) "c = CHR 0x22" | (obj) "c \<noteq> CHR 0x22" "c = CHR ''{''"
        | (arr) "c \<noteq> CHR 0x22" "c \<noteq> CHR ''{''" "c = CHR ''[''"
        | (atom) "c \<noteq> CHR 0x22" "c \<noteq> CHR ''{''" "c \<noteq> CHR ''[''"
        by blast
      then show ?thesis
      proof cases
        case str
        then obtain x where "scanstring [] cs = Inr (x, r)"
          using a Cons by (auto split: sum.splits)
        then show ?thesis
          using scanstring_shorter Cons by fastforce
      next
        case obj
        then obtain d t where sk: "skip_ws cs = d # t"
          using a Cons by (cases "skip_ws cs") auto
        have "length r < length (d # t)"
          using a Cons obj sk obj_lt [of "[]" "d # t" v r] by (auto split: if_splits)
        then show ?thesis
          using length_skip_ws [of cs] sk Cons by simp
      next
        case arr
        then obtain d t where sk: "skip_ws cs = d # t"
          using a Cons by (cases "skip_ws cs") auto
        have "length r < length (d # t)"
          using a Cons arr sk arr_lt [of "[]" "d # t" v r] by (auto split: if_splits)
        then show ?thesis
          using length_skip_ws [of cs] sk Cons by simp
      next
        case atom
        then show ?thesis
          using a Cons scan_atom_shorter [of s v r] by simp
      qed
    qed
  }
  {
    assume f: "2 * length s < Suc n"
    show "scan_once (Suc n) s \<noteq> Inl (OtherException ''RecursionError'')"
    proof (cases s)
      case Nil
      then show ?thesis by simp
    next
      case (Cons c cs)
      have fuel: "2 * length t + 2 \<le> n" if "length t \<le> length cs" for t :: string
        using f Cons that by simp
      consider (str) "c = CHR 0x22" | (obj) "c \<noteq> CHR 0x22" "c = CHR ''{''"
        | (arr) "c \<noteq> CHR 0x22" "c \<noteq> CHR ''{''" "c = CHR ''[''"
        | (atom) "c \<noteq> CHR 0x22" "c \<noteq> CHR ''{''" "c \<noteq> CHR ''[''"
        by blast
      then show ?thesis
      proof cases
        case str
        then show ?thesis
          using Cons scanstring_no_recursion_error [of "[]" cs]
          by (auto split: sum.splits)
      next
        case obj
        show ?thesis
        proof (cases "skip_ws cs")
          case Nil
          then show ?thesis using Cons obj by simp
        next
          case (Cons d t)
          then have "length (d # t) \<le> length cs"
            using length_skip_ws [of cs] by simp
          then show ?thesis
            using \<open>s = c # cs\<close> obj Cons obj_ne [OF fuel, of "d # t" "[]"] by simp
        qed
      next
        case arr
        show ?thesis
        proof (cases "skip_ws cs")
          case Nil
          then show ?thesis using Cons arr by simp
        next
          case (Cons d t)
          then have "length (d # t) \<le> length cs"
            using length_skip_ws [of cs] by simp
          then show ?thesis
            using \<open>s = c # cs\<close> arr Cons arr_ne [OF fuel, of "d # t" "[]"] by simp
        qed
      next
        case atom
        then show ?thesis
          using Cons scan_atom_no_recursion_error [of s] by auto
      qed
    qed
  }
qed

lemma calls_ok_parse_array:
  assumes "calls_ok n"
  shows "parse_array (Suc n) acc s = Inr (v, r) \<Longrightarrow> length r < length s"
    and "2 * length s + 2 \<le> Suc n
           \<Longrightarrow> parse_array (Suc n) acc s \<noteq> Inl (OtherException ''RecursionError'')"
proof -
  have sc_lt: "scan_once n t = Inr (v, r) \<Longrightarrow> length r < length t"
    and sc_ne: "2 * length t < n \<Longrightarrow> scan_once n t \<noteq> Inl (OtherException ''RecursionError'')"
    and arr_lt: "parse_array n acc t = Inr (v, r) \<Longrightarrow> length r < length t"
    and arr_ne: "2 * length t + 2 \<le> n \<Longrightarrow> parse_array n acc t \<noteq> Inl (OtherException ''RecursionError'')"
    for acc t v r
    using assms unfolding calls_ok_def by blast+
  {
    assume a: "parse_array (Suc n) acc s = Inr (v, r)"
    then obtain x r1 where sc: "scan_once n s = Inr (x, r1)"
      by (cases "scan_once n s") auto
    then have l1: "length r1 < length s" by (rule sc_lt)
    obtain d r' where sk: "skip_ws r1 = d # r'"
      using a sc by (cases "skip_ws r1") auto
    have l2: "length r' < length r1" using sk by (rule skip_ws_Cons_length)
    consider "d = CHR '']''" "r = r'"
      | "d = CHR '',''" "parse_array n (acc @ [x]) (skip_ws r') = Inr (v, r)"
      using a sc sk by (auto split: if_splits)
    then show "length r < length s"
    proof cases
      case 1
      then show ?thesis using l1 l2 by simp
    next
      case 2
      then have "length r < length (skip_ws r')" using arr_lt by blast
      then show ?thesis using l1 l2 length_skip_ws [of r'] by simp
    qed
  }
  {
    assume f: "2 * length s + 2 \<le> Suc n"
    show "parse_array (Suc n) acc s \<noteq> Inl (OtherException ''RecursionError'')"
    proof (cases "scan_once n s")
      case (Inl e)
      have "scan_once n s \<noteq> Inl (OtherException ''RecursionError'')"
        using f by (intro sc_ne) simp
      then show ?thesis using Inl by auto
    next
      case (Inr p)
      obtain x r1 where p: "p = (x, r1)" by (cases p)
      have l1: "length r1 < length s" using Inr p sc_lt by blast
      show ?thesis
      proof (cases "skip_ws r1")
        case Nil
        then show ?thesis using Inr p by simp
      next
        case (Cons d r')
        have l2: "length r' < length r1" using Cons by (rule skip_ws_Cons_length)
        have "2 * length (skip_ws r') + 2 \<le> n"
          using f l1 l2 length_skip_ws [of r'] by simp
        then have "parse_array n (acc @ [x]) (skip_ws r') \<noteq> Inl (OtherException ''RecursionError'')"
          by (rule arr_ne)
        then show ?thesis using Inr p Cons by simp
      qed
    qed
  }
qed

lemma calls_ok_parse_object:
  assumes "calls_ok n"
  shows "parse_object (Suc n) acc s = Inr (v, r) \<Longrightarrow> length r < length s"
    and "2 * length s + 2 \<le> Suc n
           \<Longrightarrow> parse_object (Suc n) acc s \<noteq> Inl (OtherException ''RecursionError'')"
proof -
  have sc_lt: "scan_once n t = Inr (v, r) \<Longrightarrow> length r < length t"
    and sc_ne: "2 * length t < n \<Longrightarrow> scan_once n t \<noteq> Inl (OtherException ''RecursionError'')"
    and obj_lt: "parse_object n acc t = Inr (v, r) \<Longrightarrow> length r < length t"
    and obj_ne: "2 * length t + 2 \<le> n \<Longrightarrow> parse_object n acc t \<noteq> Inl (OtherException ''RecursionError'')"
    for acc t v r
    using assms unfolding calls_ok_def by blast+
  {
    assume a: "parse_object (Suc n) acc s = Inr (v, r)"
    then obtain cs where s: "s = CHR 0x22 # cs"
      by (cases s) (auto split: if_splits)
    obtain key r0 where key: "scanstring [] cs = Inr (key, r0)"
      using a s by (cases "scanstring [] cs") auto
    have l0: "length r0 < Suc (length cs)" using key by (rule scanstring_shorter)
    obtain r1 where sk1: "skip_ws r0 = CHR '':'' # r1"
      using a s key by (cases "skip_ws r0") (auto split: if_splits)
    have l1: "length r1 < length r0" using sk1 by (rule skip_ws_Cons_length)
    obtain x r2 where sc: "scan_once n (skip_ws r1) = Inr (x, r2)"
      using a s key sk1 by (cases "scan_once n (skip_ws r1)") auto
    have l2: "length r2 < length r1"
      using sc_lt [OF sc] length_skip_ws [of r1] by simp
    obtain d2 r3 where sk2: "skip_ws r2 = d2 # r3"
      using a s key sk1 sc by (cases "skip_ws r2") auto
    have l3: "length r3 < length r2" using sk2 by (rule skip_ws_Cons_length)
    consider "d2 = CHR ''}''" "r = r3"
      | "d2 = CHR '',''" "parse_object n (dict_set acc (KStr key) x) (skip_ws r3) = Inr (v, r)"
      using a s key sk1 sc sk2 by (auto split: if_splits)
    then show "length r < length s"
    proof cases
      case 1
      then show ?thesis using s l0 l1 l2 l3 by simp
    next
      case 2
      then have "length r < length (skip_ws r3)" using obj_lt by blast
      then show ?thesis using s l0 l1 l2 l3 length_skip_ws [of r3] by simp
    qed
  }
  {
    assume f: "2 * length s + 2 \<le> Suc n"
    show "parse_object (Suc n) acc s \<noteq> Inl (OtherException ''RecursionError'')"
    proof (cases s)
      case Nil
      then show ?thesis by simp
    next
      case (Cons c cs)
      show ?thesis
      proof (cases "c = CHR 0x22")
        case False
        then show ?thesis using Cons by simp
      next
        case True
        show ?thesis
        proof (cases "scanstring [] cs")
          case (Inl e)
          then show ?thesis
            using Cons True scanstring_no_recursion_error [of "[]" cs e] by auto
        next
          case (Inr p)
          obtain key r0 where p: "p = (key, r0)" by (cases p)
          have l0: "length r0 < Suc (length cs)"
            using Inr p scanstring_shorter by blast
          show ?thesis
          proof (cases "skip_ws r0")
            case Nil
            then show ?thesis using Cons True Inr p by simp
          next
            case sk1: (Cons d r1)
            have l1: "length r1 < length r0" using sk1 by (rule skip_ws_Cons_length)
            show ?thesis
            proof (cases "d = CHR '':''")
              case False
              then show ?thesis using Cons True Inr p sk1 by simp
            next
              case colon: True
              show ?thesis
              proof (cases "scan_once n (skip_ws r1)")
                case (Inl e)
                have "2 * length (skip_ws r1) < n"
                  using f Cons l0 l1 length_skip_ws [of r1] by simp
                then have "scan_once n (skip_ws r1) \<noteq> Inl (OtherException ''RecursionError'')"
                  by (rule sc_ne)
                then show ?thesis
                  using Cons True Inr p sk1 colon Inl by auto
              next
                case val: (Inr q)
                obtain x r2 where q: "q = (x, r2)" by (cases q)
                have l2: "length r2 < length r1"
                  using sc_lt [of "skip_ws r1" x r2] val q length_skip_ws [of r1] by simp
                show ?thesis
                proof (cases "skip_ws r2")
                  case Nil
                  then show ?thesis
                    using Cons True Inr p sk1 colon val q by simp
                next
                  case sk2: (Cons d2 r3)
                  have l3: "length r3 < length r2" using sk2 by (rule skip_ws_Cons_length)
                  have "2 * length (skip_ws r3) + 2 \<le> n"
                    using f Cons l0 l1 l2 l3 length_skip_ws [of r3] by simp
                  then have "parse_object n (dict_set acc (KStr key) x) (skip_ws r3)
                      \<noteq> Inl (OtherException ''RecursionError'')"
                    by (rule obj_ne)
                  then show ?thesis
                    using Cons True Inr p sk1 colon val q sk2 by simp
                qed
              qed
            qed
          qed
        qed
      qed
    qed
  }
qed

lemma calls_ok_all: "calls_ok n"
proof (induction n)
  case 0
  show ?case by (simp add: calls_ok_def)
next
  case (Suc n)
  show ?case
    unfolding calls_ok_def
    using calls_ok_scan_once [OF Suc] calls_ok_parse_array [OF Suc]
      calls_ok_parse_object [OF Suc]
    by blast
qed

lemma py_json_loads_no_recursion_error:
  "py_json_loads s \<noteq> Inl (OtherException ''RecursionError'')"
proof -
  have "2 * length (skip_ws s) < Suc (length s + length s)"
    using length_skip_ws [of s] by simp
  then have "scan_once (Suc (length s + length s)) (skip_ws s)
      \<noteq> Inl (OtherException ''RecursionError'')"
    using calls_ok_all [of "Suc (length s + length s)"] unfolding calls_ok_def by blast
  then show ?thesis
    by (auto simp: py_json_loads_def split: sum.splits if_splits)
qed

subsection \<open>The invariant of results\<close>

text \<open>
  Claim C1. Every result that \<open>execute\<close> returns and every result in the list of
  \<open>execute_batch\<close> satisfies the invariant: \<open>success\<close> holds exactly when the exit code
  is 0, and \<open>error\<close> is set exactly when \<open>success\<close> does not hold. When the body of
  \<open>execute\<close> raises an exception other than the timeout, the result has exit code -1
  and the exception's message as error; the same holds for the result that
  \<open>execute_batch\<close> builds when a call raises.
\<close>

theorem command_result_invariant:
  "(\<forall>r. snd (execute lib ex w c ctx fmt) = Inr r \<longrightarrow> result_invariant r)
   \<and> (\<forall>r \<in> set (execute_batch lib ex worlds late cs ctx fmt). result_invariant r)
   \<and> (\<forall>e. snd (execute_try lib ex w c (resolve_context ctx) fmt) = Inl e
            \<and> (\<forall>m. e \<noteq> CommandTimeoutError m)
        \<longrightarrow> (\<exists>r. snd (execute lib ex w c ctx fmt) = Inr r
                 \<and> exit_code r = - 1 \<and> error r = Some (str_exn e)))
   \<and> (\<forall>i e. i < length cs \<and> \<not> late i
            \<and> snd (execute lib ex (worlds i) (cs ! i) ctx fmt) = Inl e
        \<longrightarrow> exit_code (execute_batch lib ex worlds late cs ctx fmt ! i) = - 1
            \<and> error (execute_batch lib ex worlds late cs ctx fmt ! i) = Some (str_exn e))"
proof (intro conjI allI impI ballI)
  fix r
  assume "snd (execute lib ex w c ctx fmt) = Inr r"
  then show "result_invariant r" by (rule execute_invariant)
next
  fix r
  assume "r \<in> set (execute_batch lib ex worlds late cs ctx fmt)"
  then show "result_invariant r"
    by (auto simp: execute_batch_def collect_invariant)
next
  fix e
  assume a: "snd (execute_try lib ex w c (resolve_context ctx) fmt) = Inl e
            \<and> (\<forall>m. e \<noteq> CommandTimeoutError m)"
  then have "snd (execute lib ex w c ctx fmt) = Inr (exception_result w c fmt e)"
    by (cases "execute_try lib ex w c (resolve_context ctx) fmt")
      (simp add: execute_def handlers_not_timeout)
  then show "\<exists>r. snd (execute lib ex w c ctx fmt) = Inr r
                 \<and> exit_code r = - 1 \<and> error r = Some (str_exn e)"
    by (simp add: exception_result_def)
next
  fix i e
  assume a: "i < length cs \<and> \<not> late i
            \<and> snd (execute lib ex (worlds i) (cs ! i) ctx fmt) = Inl e"
  then have "execute_batch lib ex worlds late cs ctx fmt ! i = batch_error_result (cs ! i) fmt e"
    by (simp add: execute_batch_nth collect_def)
  then show "exit_code (execute_batch lib ex worlds late cs ctx fmt ! i) = - 1"
    and "error (execute_batch lib ex worlds late cs ctx fmt ! i) = Some (str_exn e)"
    by (simp_all add: batch_error_result_def)
qed

theorem command_result_invariant_witness:
  "snd (execute test_lib test_executor (mock_world (Exited 5 [] ''Error: Not found''))
         ''get-project invalid'' None JSON)
     = Inr \<lparr>success = False, exit_code = 5, stdout = [], stderr = ''Error: Not found'',
           duration = 1,
           command = [''/usr/bin/echo'', ''get-project'', ''invalid'', ''--output'', ''json''],
           output_format = JSON, parsed_output = PNone,
           error = Some ''Resource not found: Error: Not found''\<rparr>
   \<and> result_invariant
       \<lparr>success = False, exit_code = 5, stdout = [], stderr = ''Error: Not found'',
        duration = 1,
        command = [''/usr/bin/echo'', ''get-project'', ''invalid'', ''--output'', ''json''],
        output_format = JSON, parsed_output = PNone,
        error = Some ''Resource not found: Error: Not found''\<rparr>
   \<and> snd (execute_try test_lib test_executor (mock_world (SpawnFailed ''No such file''))
         ''list-projects'' (resolve_context None) JSON) = Inl (OtherException ''No such file'')
   \<and> (\<exists>r. snd (execute test_lib test_executor (mock_world (SpawnFailed ''No such file''))
         ''list-projects'' None JSON) = Inr r
        \<and> exit_code r = - 1 \<and> error r = Some ''No such file'')
   \<and> list_all result_invariant
        (execute_batch test_lib test_executor (\<lambda>i. mock_world (Expired [] [])) (\<lambda>i. False)
           [''list-projects''] None JSON)
   \<and> exit_code (execute_batch test_lib test_executor (\<lambda>i. mock_world (Expired [] []))
        (\<lambda>i. False) [''list-projects''] None JSON ! 0) = - 1"
proof -
  let ?w1 = "mock_world (Exited 5 [] ''Error: Not found'')"
  let ?w2 = "mock_world (SpawnFailed ''No such file'')"
  let ?ws = "\<lambda>i::nat. mock_world (Expired [] [])"
  let ?late = "\<lambda>i::nat. False"
  have a: "snd (execute test_lib test_executor ?w1 ''get-project invalid'' None JSON)
     = Inr \<lparr>success = False, exit_code = 5, stdout = [], stderr = ''Error: Not found'',
           duration = 1,
           command = [''/usr/bin/echo'', ''get-project'', ''invalid'', ''--output'', ''json''],
           output_format = JSON, parsed_output = PNone,
           error = Some ''Resource not found: Error: Not found''\<rparr>"
    by (simp add: test_execute_failure)
  have b: "snd (execute_try test_lib test_executor ?w2 ''list-projects'' (resolve_context None) JSON)
     = Inl (OtherException ''No such file'')"
    by (simp add: run_defs test_defs)
  have c: "snd (execute test_lib test_executor (?ws 0) ([''list-projects''] ! 0) None JSON)
     = Inl (CommandTimeoutError ''Command timed out after 300.0 seconds'')"
    by (simp add: test_execute_timeout)
  note thm1 = command_result_invariant [of test_lib test_executor ?w1 "''get-project invalid''"
      None JSON ?ws ?late "[''list-projects'']"]
  note thm2 = command_result_invariant [of test_lib test_executor ?w2 "''list-projects''"
      None JSON ?ws ?late "[''list-projects'']"]
  have inv: "result_invariant
       \<lparr>success = False, exit_code = 5, stdout = [], stderr = ''Error: Not found'',
        duration = 1,
        command = [''/usr/bin/echo'', ''get-project'', ''invalid'', ''--output'', ''json''],
        output_format = JSON, parsed_output = PNone,
        error = Some ''Resource not found: Error: Not found''\<rparr>"
    using thm1 a by blast
  have exc: "\<exists>r. snd (execute test_lib test_executor ?w2 ''list-projects'' None JSON) = Inr r
        \<and> exit_code r = - 1 \<and> error r = Some ''No such file''"
    using thm2 b by fastforce
  have batch_inv: "list_all result_invariant
        (execute_batch test_lib test_executor ?ws ?late [''list-projects''] None JSON)"
    using thm1 by (simp add: list_all_iff)
  have batch_exc: "exit_code (execute_batch test_lib test_executor ?ws ?late
        [''list-projects''] None JSON ! 0) = - 1"
    using thm1 c by fastforce
  show ?thesis
    using a inv b exc batch_inv batch_exc by blast
qed

subsection \<open>Parsing of commands\<close>

text \<open>
  Claim C2. On a command that is not blank, \<open>parse_command\<close> removes the prefix
  \<^verbatim>\<open>api-cli \<close> and splits the rest into shell words. When the first token is a
  checkpoint command, the second token (if any) is the subcommand, a third token of
  digits is the checkpoint id with the tokens after it as arguments, and otherwise the
  tokens from the third on are the arguments and there is no checkpoint id. When the
  first token is no checkpoint command, all further tokens are arguments. The command
  \<^verbatim>\<open>step-navigate to 12345 "https://example.com"\<close> parses to \<open>step-navigate\<close>, \<open>to\<close>,
  \<open>12345\<close> and the single argument \<open>https://example.com\<close>.
\<close>

theorem parse_command_structure:
  assumes "strip c \<noteq> []"
    and "shlex_split (if startswith (strip c) ''api-cli '' then drop 8 (strip c) else strip c)
           = Inr (t # ts)"
  shows "parse_command c = Inr
     (if t \<in> set CHECKPOINT_COMMANDS then
        (case ts of
           [] \<Rightarrow> (t, None, None, [])
         | [s] \<Rightarrow> (t, Some s, None, [])
         | s # u # rest \<Rightarrow>
             if isdigit u then (t, Some s, Some u, rest) else (t, Some s, None, u # rest))
      else (t, None, None, ts))
    \<and> parse_command ''step-navigate to 12345 \"https://example.com\"''
        = Inr (''step-navigate'', Some ''to'', Some ''12345'', [''https://example.com''])"
proof
  show "parse_command c = Inr
     (if t \<in> set CHECKPOINT_COMMANDS then
        (case ts of
           [] \<Rightarrow> (t, None, None, [])
         | [s] \<Rightarrow> (t, Some s, None, [])
         | s # u # rest \<Rightarrow>
             if isdigit u then (t, Some s, Some u, rest) else (t, Some s, None, u # rest))
      else (t, None, None, ts))"
    using assms by (simp add: parse_command_def Let_def split: list.splits)
next
  show "parse_command ''step-navigate to 12345 \"https://example.com\"''
        = Inr (''step-navigate'', Some ''to'', Some ''12345'', [''https://example.com''])"
    by (simp add: parse_command_def strip_defs startswith_def shlex_defs
        CHECKPOINT_COMMANDS_def isdigit_def py_digits_def)
qed

theorem parse_command_structure_witness:
  "strip ''api-cli library get 77 --name x'' \<noteq> []
   \<and> parse_command ''api-cli library get 77 --name x''
       = Inr (''library'', Some ''get'', Some ''77'', [''--name'', ''x''])"
proof -
  have a: "strip ''api-cli library get 77 --name x'' \<noteq> []"
    by (simp add: strip_defs)
  have b: "shlex_split (if startswith (strip ''api-cli library get 77 --name x'') ''api-cli ''
             then drop 8 (strip ''api-cli library get 77 --name x'')
             else strip ''api-cli library get 77 --name x'')
           = Inr (''library'' # [''get'', ''77'', ''--name'', ''x''])"
    by (simp add: strip_defs startswith_def shlex_defs)
  show ?thesis
    using a parse_command_structure [OF a b]
    by (simp add: CHECKPOINT_COMMANDS_def isdigit_def py_digits_def)
qed

subsection \<open>Failures of parsing and validation\<close>




subsection \<open>Validation of commands\<close>

text \<open>
  Claim C4. For a checkpoint command, \<open>validate_command\<close> fails exactly when no
  checkpoint id is given (\<^verbatim>\<open>None\<close> or the empty string, both false in Python), the
  context, if any, has no session id, and the command is not \<open>library\<close>; the message
  of the error contains \<open>requires checkpoint ID\<close>. Other commands always pass.
\<close>

theorem validate_command_checkpoint:
  "(cmd \<in> set CHECKPOINT_COMMANDS \<longrightarrow>
      ((\<exists>e. validate_command cmd sub cp ctx = Inl e) \<longleftrightarrow>
         (\<not> truthy cp
          \<and> (case ctx of None \<Rightarrow> True | Some c \<Rightarrow> \<not> truthy (session_id c))
          \<and> cmd \<noteq> ''library''))
      \<and> (\<forall>e. validate_command cmd sub cp ctx = Inl e \<longrightarrow>
             (\<exists>m. e = CommandValidationError m \<and> sublist ''requires checkpoint ID'' m)))
   \<and> (cmd \<notin> set CHECKPOINT_COMMANDS \<longrightarrow> validate_command cmd sub cp ctx = Inr ())"
proof (intro conjI impI allI)
  assume "cmd \<in> set CHECKPOINT_COMMANDS"
  then show "(\<exists>e. validate_command cmd sub cp ctx = Inl e) \<longleftrightarrow>
         (\<not> truthy cp
          \<and> (case ctx of None \<Rightarrow> True | Some c \<Rightarrow> \<not> truthy (session_id c))
          \<and> cmd \<noteq> ''library'')"
    by (cases ctx) (auto simp: validate_command_def Let_def)
next
  fix e
  assume "cmd \<in> set CHECKPOINT_COMMANDS" and "validate_command cmd sub cp ctx = Inl e"
  then have "e = CommandValidationError
      (''Command '' @ [CHR 0x27] @ cmd @ [CHR 0x27] @ '' requires checkpoint ID. ''
       @ ''Provide it explicitly or set VIRTUOSO_SESSION_ID'')"
    by (auto simp: validate_command_def Let_def split: if_splits)
  then show "\<exists>m. e = CommandValidationError m \<and> sublist ''requires checkpoint ID'' m"
    using requires_checkpoint_sublist by blast
next
  assume "cmd \<notin> set CHECKPOINT_COMMANDS"
  then show "validate_command cmd sub cp ctx = Inr ()"
    by (simp add: validate_command_def)
qed

theorem validate_command_checkpoint_witness:
  "''step-interact'' \<in> set CHECKPOINT_COMMANDS
   \<and> (\<exists>m. validate_command ''step-interact'' (Some ''click'') None None
            = Inl (CommandValidationError m) \<and> sublist ''requires checkpoint ID'' m)
   \<and> ''list-projects'' \<notin> set CHECKPOINT_COMMANDS
   \<and> validate_command ''list-projects'' None None None = Inr ()"
proof -
  have a: "''step-interact'' \<in> set CHECKPOINT_COMMANDS"
    by (simp add: CHECKPOINT_COMMANDS_def)
  have b: "''list-projects'' \<notin> set CHECKPOINT_COMMANDS"
    by (simp add: CHECKPOINT_COMMANDS_def)
  have c: "\<exists>e. validate_command ''step-interact'' (Some ''click'') None None = Inl e"
    using validate_command_checkpoint [of "''step-interact''" "Some ''click''" None None] a
    by simp
  show ?thesis
    using a b c
      validate_command_checkpoint [of "''step-interact''" "Some ''click''" None None]
      validate_command_checkpoint [of "''list-projects''" None None None]
    by auto
qed

subsection \<open>Timeouts\<close>



subsection \<open>Batches\<close>

text \<open>
  Claim C6. \<open>execute_batch\<close> returns one result per command, in the order of the
  commands. The result at position \<open>i\<close> depends on the i-th call only: it is the
  timeout result when the wait on the i-th future expired, the error result when the
  call raised, and otherwise what the call returned. Both synthetic results are
  failures that carry the command of their position. No exception leaves the batch.
\<close>

theorem execute_batch_length_order:
  "length (execute_batch lib ex worlds late cs ctx fmt) = length cs
   \<and> (\<forall>i < length cs.
         execute_batch lib ex worlds late cs ctx fmt ! i
           = (if late i then batch_timeout_result ex (cs ! i) fmt
              else case snd (execute lib ex (worlds i) (cs ! i) ctx fmt) of
                     Inr r \<Rightarrow> r
                   | Inl e \<Rightarrow> batch_error_result (cs ! i) fmt e))
   \<and> \<not> success (batch_timeout_result ex c fmt)
   \<and> command (batch_timeout_result ex c fmt) = [c]
   \<and> \<not> success (batch_error_result c fmt e)
   \<and> command (batch_error_result c fmt e) = [c]"
  by (simp add: execute_batch_length execute_batch_nth collect_def
      batch_timeout_result_def batch_error_result_def)

theorem execute_batch_length_order_witness:
  "(1::nat) < length [''list-projects'', ''get-project 1'', ''list-goals'']
   \<and> length (execute_batch test_lib test_executor
        (\<lambda>i. mock_world (if i = 0 then Exited 0 [] [] else Expired [] []))
        (\<lambda>i. i = 2) [''list-projects'', ''get-project 1'', ''list-goals''] None JSON) = 3
   \<and> execute_batch test_lib test_executor
        (\<lambda>i. mock_world (if i = 0 then Exited 0 [] [] else Expired [] []))
        (\<lambda>i. i = 2) [''list-projects'', ''get-project 1'', ''list-goals''] None JSON ! 1
      = batch_error_result ''get-project 1'' JSON
          (CommandTimeoutError ''Command timed out after 300.0 seconds'')"
proof -
  have a: "(1::nat) < length [''list-projects'', ''get-project 1'', ''list-goals'']"
    by simp
  have b: "snd (execute test_lib test_executor (mock_world (Expired [] []))
       ''get-project 1'' None JSON)
     = Inl (CommandTimeoutError ''Command timed out after 300.0 seconds'')"
    by (simp add: run_defs test_defs)
  show ?thesis
    using a b execute_batch_length_order [of test_lib test_executor
      "\<lambda>i. mock_world (if i = 0 then Exited 0 [] [] else Expired [] [])" "\<lambda>i. i = 2"
      "[''list-projects'', ''get-project 1'', ''list-goals'']" None JSON]
    by simp
qed

text \<open>
  Claim C10. In a batch, a call whose process timed out raises the timeout error, which
  the generic handler turns into a result with exit code -1 and the message as error.
  The result with exit code 8 and error \<open>Timeout\<close> arises exactly when the wait on the
  future expired. The batch of the single command \<open>list-projects\<close> whose process times
  out reports exit code -1.
\<close>

theorem batch_subprocess_timeout_code:
  assumes "i < length cs"
  shows "(\<forall>m. \<not> late i
            \<and> snd (execute lib ex (worlds i) (cs ! i) ctx fmt) = Inl (CommandTimeoutError m)
          \<longrightarrow> exit_code (execute_batch lib ex worlds late cs ctx fmt ! i) = - 1
              \<and> error (execute_batch lib ex worlds late cs ctx fmt ! i) = Some m)
    \<and> (exit_code (execute_batch lib ex worlds late cs ctx fmt ! i) = 8
         \<and> error (execute_batch lib ex worlds late cs ctx fmt ! i) = Some ''Timeout''
        \<longrightarrow> late i)
    \<and> (late i \<longrightarrow> exit_code (execute_batch lib ex worlds late cs ctx fmt ! i) = 8
         \<and> error (execute_batch lib ex worlds late cs ctx fmt ! i) = Some ''Timeout'')
    \<and> exit_code (execute_batch test_lib test_executor (\<lambda>i. mock_world (Expired [] []))
         (\<lambda>i. False) [''list-projects''] None JSON ! 0) = - 1"
proof (intro conjI allI impI)
  let ?res = "execute_batch lib ex worlds late cs ctx fmt ! i"
  have nth: "?res = collect lib ex (worlds i) (late i) (cs ! i) ctx fmt"
    using assms by (rule execute_batch_nth)
  {
    fix m
    assume "\<not> late i
            \<and> snd (execute lib ex (worlds i) (cs ! i) ctx fmt) = Inl (CommandTimeoutError m)"
    then have "?res = batch_error_result (cs ! i) fmt (CommandTimeoutError m)"
      using nth by (simp add: collect_def)
    then show "exit_code ?res = - 1" and "error ?res = Some m"
      by (simp_all add: batch_error_result_def)
  }
  {
    assume a: "exit_code ?res = 8 \<and> error ?res = Some ''Timeout''"
    show "late i"
    proof (rule ccontr)
      assume nl: "\<not> late i"
      show False
      proof (cases "snd (execute lib ex (worlds i) (cs ! i) ctx fmt)")
        case (Inl e)
        then have "?res = batch_error_result (cs ! i) fmt e"
          using nth nl by (simp add: collect_def)
        with a show False by (simp add: batch_error_result_def)
      next
        case (Inr r)
        then have res: "?res = r"
          using nth nl by (simp add: collect_def)
        have "handlers (worlds i) (cs ! i) fmt
                (snd (execute_try lib ex (worlds i) (cs ! i) (resolve_context ctx) fmt)) = Inr r"
          using Inr by (simp add: execute_def split: prod.splits)
        then consider "snd (execute_try lib ex (worlds i) (cs ! i) (resolve_context ctx) fmt) = Inr r"
          | e where "r = exception_result (worlds i) (cs ! i) fmt e"
          using handlers_Inr by blast
        then show False
        proof cases
          case 1
          then obtain argv code out err
            where c: "completed_result lib (worlds i) argv fmt code out err = Inr r"
            using execute_try_Inr by blast
          then have "exit_code r = code"
            and "error r = (if code \<noteq> 0 then Some (get_error_message code err) else None)"
            using completed_result_Inr [of lib "worlds i" argv fmt code out err] by auto
          with a res show False
            using get_error_message_8 by auto
        next
          case 2
          with a res show False by (simp add: exception_result_def)
        qed
      qed
    qed
  }
  {
    assume "late i"
    then have "?res = batch_timeout_result ex (cs ! i) fmt"
      using nth by (simp add: collect_def)
    then show "exit_code ?res = 8" and "error ?res = Some ''Timeout''"
      by (simp_all add: batch_timeout_result_def)
  }
  have "snd (execute test_lib test_executor (mock_world (Expired [] []))
       ''list-projects'' None JSON)
     = Inl (CommandTimeoutError ''Command timed out after 300.0 seconds'')"
    by (simp add: test_execute_timeout)
  then show "exit_code (execute_batch test_lib test_executor (\<lambda>i. mock_world (Expired [] []))
         (\<lambda>i. False) [''list-projects''] None JSON ! 0) = - 1"
    by (simp add: execute_batch_nth collect_def batch_error_result_def)
qed

theorem batch_subprocess_timeout_code_witness:
  "(0::nat) < length [''get-project 1'']
   \<and> snd (execute test_lib test_executor (mock_world (Expired [] [])) ''get-project 1'' None JSON)
       = Inl (CommandTimeoutError ''Command timed out after 300.0 seconds'')
   \<and> exit_code (execute_batch test_lib test_executor (\<lambda>i. mock_world (Expired [] []))
        (\<lambda>i. False) [''get-project 1''] None JSON ! 0) = - 1
   \<and> error (execute_batch test_lib test_executor (\<lambda>i. mock_world (Expired [] []))
        (\<lambda>i. False) [''get-project 1''] None JSON ! 0)
       = Some ''Command timed out after 300.0 seconds''
   \<and> exit_code (execute_batch test_lib test_executor (\<lambda>i. mock_world (Expired [] []))
        (\<lambda>i. True) [''get-project 1''] None JSON ! 0) = 8"
proof -
  have a: "(0::nat) < length [''get-project 1'']"
    by simp
  have b: "snd (execute test_lib test_executor (mock_world (Expired [] []))
       ([''get-project 1''] ! 0) None JSON)
     = Inl (CommandTimeoutError ''Command timed out after 300.0 seconds'')"
    by (simp add: run_defs test_defs)
  show ?thesis
    using a b
      batch_subprocess_timeout_code [OF a, of "\<lambda>i. False" test_lib test_executor
        "\<lambda>i. mock_world (Expired [] [])" None JSON]
      batch_subprocess_timeout_code [OF a, of "\<lambda>i. True" test_lib test_executor
        "\<lambda>i. mock_world (Expired [] [])" None JSON]
    by simp
qed

subsection \<open>Decoding of output\<close>

text \<open>
  Claim C7. \<open>parse_output\<close> never raises. Blank output gives \<^verbatim>\<open>None\<close>. Output that
  is not blank and fails to decode as JSON or YAML is returned as it is, and so is any
  output that is not blank under the other formats.
\<close>

theorem parse_output_never_raises:
  "(\<exists>v. parse_output lib s fmt = Inr v)
   \<and> (strip s = [] \<longrightarrow> parse_output lib s fmt = Inr PNone)
   \<and> (strip s \<noteq> [] \<and> fmt = JSON \<and> (\<exists>e. json_loads lib s = Inl e)
        \<longrightarrow> parse_output lib s fmt = Inr (PStr s))
   \<and> (strip s \<noteq> [] \<and> fmt = YAML \<and> (\<exists>e. yaml_safe_load lib s = Inl e)
        \<longrightarrow> parse_output lib s fmt = Inr (PStr s))
   \<and> (strip s \<noteq> [] \<and> fmt \<noteq> JSON \<and> fmt \<noteq> YAML \<longrightarrow> parse_output lib s fmt = Inr (PStr s))"
  by (auto simp: parse_output_def decode_def split: sum.splits)

theorem parse_output_never_raises_witness:
  "strip ''   '' = []
   \<and> parse_output test_lib ''   '' JSON = Inr PNone
   \<and> strip ''{broken'' \<noteq> []
   \<and> parse_output test_lib ''{broken'' JSON = Inr (PStr ''{broken'')
   \<and> parse_output test_lib ''{broken'' YAML = Inr (PStr ''{broken'')
   \<and> parse_output test_lib ''{broken'' HUMAN = Inr (PStr ''{broken'')"
proof -
  have a: "strip ''   '' = []"
    by (simp add: strip_defs)
  have b: "strip ''{broken'' \<noteq> []"
    by (simp add: strip_defs)
  have c: "\<exists>e. json_loads test_lib ''{broken'' = Inl e"
    by (simp add: test_lib_def json_loads_defs)
  have d: "\<exists>e. yaml_safe_load test_lib ''{broken'' = Inl e"
    by (simp add: test_lib_def)
  show ?thesis
    using a b c d
      parse_output_never_raises [of test_lib "''   ''" JSON]
      parse_output_never_raises [of test_lib "''{broken''" JSON]
      parse_output_never_raises [of test_lib "''{broken''" YAML]
      parse_output_never_raises [of test_lib "''{broken''" HUMAN]
    by simp
qed




subsection \<open>Error messages\<close>

text \<open>
  Claim C9. \<open>get_error_message\<close> returns the entry of the exit-code table, or
  \<open>Unknown error (code: n)\<close> for a code \<open>n\<close> outside the table, followed by a colon,
  a space and the stripped stderr when that is not empty. The four examples of the
  specification hold.
\<close>

theorem get_error_message_spec:
  "get_error_message code err =
     (case map_of EXIT_CODES code of
        Some m \<Rightarrow> m
      | None \<Rightarrow> ''Unknown error (code: '' @ str_int code @ '')'')
     @ (if strip err = [] then [] else '': '' @ strip err)
   \<and> map_of EXIT_CODES code =
       (if code = 0 then Some ''Success''
        else if code = 1 then Some ''General error''
        else if code = 2 then Some ''Command line parsing error''
        else if code = 3 then Some ''Authentication error''
        else if code = 4 then Some ''Configuration error''
        else if code = 5 then Some ''Resource not found''
        else if code = 6 then Some ''Validation error''
        else if code = 7 then Some ''API error''
        else if code = 8 then Some ''Timeout error''
        else if code = 9 then Some ''Permission denied''
        else if code = 127 then Some ''Command not found''
        else None)
   \<and> get_error_message 0 '''' = ''Success''
   \<and> get_error_message 5 '''' = ''Resource not found''
   \<and> get_error_message 5 ''x not found'' = ''Resource not found: x not found''
   \<and> get_error_message 42 '''' = ''Unknown error (code: 42)''"
proof -
  have general: "get_error_message code err =
     (case map_of EXIT_CODES code of
        Some m \<Rightarrow> m
      | None \<Rightarrow> ''Unknown error (code: '' @ str_int code @ '')'')
     @ (if strip err = [] then [] else '': '' @ strip err)"
    by (simp add: get_error_message_def Let_def)
  have e0: "get_error_message 0 '''' = ''Success''"
    by (simp add: get_error_message_def map_of_EXIT_CODES strip_defs)
  have e5: "get_error_message 5 '''' = ''Resource not found''"
    by (simp add: get_error_message_def map_of_EXIT_CODES strip_defs)
  have e5x: "get_error_message 5 ''x not found'' = ''Resource not found: x not found''"
    by (simp add: get_error_message_def map_of_EXIT_CODES strip_defs)
  have e42: "get_error_message 42 '''' = ''Unknown error (code: 42)''"
    by (simp add: get_error_message_def map_of_EXIT_CODES strip_defs str_int_def str_nat.simps)
  show ?thesis
    using general map_of_EXIT_CODES [of code] e0 e5 e5x e42 by blast
qed

end
